theory Spec2Isabelle
  imports Main "HOL-Library.Word"
begin

section \<open>Failures at program construction\<close>

text \<open>
  Everything in \<^verbatim>\<open>boost/hana/group/group.hpp\<close> is resolved while the program is
  built: an instance that cannot be selected, or an expression that does not type-check
  inside an instantiated body, stops the build. These failures are values of the model.
\<close>

datatype error = No_instance | Ambiguous_instance | Ill_formed

text \<open>
  The outcome of instantiating a call: \<open>None\<close> when the chain of instantiations never
  ends, \<open>Some (Inl e)\<close> when the build fails with \<open>e\<close>, \<open>Some (Inr v)\<close> when the call
  is built and returns \<open>v\<close>.
\<close>

type_synonym 'v outcome = "(error + 'v) option"

section \<open>Instances of the type class\<close>

text \<open>
  \<^verbatim>\<open>struct Group\<close> declares two minimal complete definitions. An instance derives from
  one of them and supplies the other method: with \<^verbatim>\<open>minus_mcd\<close> the author writes
  \<^verbatim>\<open>minus_impl\<close>, with \<^verbatim>\<open>negate_mcd\<close> the author writes \<^verbatim>\<open>negate_impl\<close>.
\<close>

datatype 'v group_mcd =
    Minus_mcd "'v \<Rightarrow> 'v \<Rightarrow> error + 'v"
  | Negate_mcd "'v \<Rightarrow> error + 'v"

text \<open>
  A (partial) specialisation \<^verbatim>\<open>Group::instance<X, Y, when<c>>\<close>: its condition, which
  is \<open>None\<close> for a pair of data types at which the condition itself is ill-formed, and
  its members at each pair of data types.
\<close>

record ('t, 'v) group_instance =
  when_pred :: "'t \<Rightarrow> 't \<Rightarrow> bool option"
  members :: "'t \<Rightarrow> 't \<Rightarrow> 'v group_mcd"

section \<open>The surroundings of group.hpp\<close>

text \<open>
  What the header takes from the rest of the library and from the language, as
  parameters of the model:
  \<^item> \<open>datatype_t\<close>: \<^verbatim>\<open>datatype_t<decltype(x)>\<close>, the data type of an object;
  \<^item> \<open>are_Monoid\<close>: \<^verbatim>\<open>are<Monoid, X, Y>()\<close>;
  \<^item> \<open>zero_impl\<close>: \<^verbatim>\<open>zero<G>\<close>, the identity of the \<^verbatim>\<open>Monoid\<close> \<open>G\<close>;
  \<^item> \<open>plus_impl\<close>: \<^verbatim>\<open>plus(x, y)\<close>, as \<^verbatim>\<open>Monoid\<close> resolves it;
  \<^item> \<open>builtin_minus\<close>: the usual \<^verbatim>\<open>operator-\<close>, that is the meaning of the expression
    \<^verbatim>\<open>x - y\<close> for operands of data types \<open>X\<close> and \<open>Y\<close>, and \<open>None\<close> when
    \<^verbatim>\<open>*(X*)0 - *(Y*)0\<close> does not type-check;
  \<^item> \<open>user_instances\<close>: the instances of \<^verbatim>\<open>Group\<close> declared outside the header.
\<close>

record ('t, 'v) program =
  datatype_t :: "'v \<Rightarrow> 't"
  are_Monoid :: "'t \<Rightarrow> 't \<Rightarrow> bool"
  zero_impl :: "'t \<Rightarrow> error + 'v"
  plus_impl :: "'v \<Rightarrow> 'v \<Rightarrow> error + 'v"
  builtin_minus :: "'t \<Rightarrow> 't \<Rightarrow> ('v \<Rightarrow> 'v \<Rightarrow> error + 'v) option"
  user_instances :: "('t, 'v) group_instance list"

section \<open>The instance for numeric data types\<close>

text \<open>
  \<^verbatim>\<open>when<are<Monoid, X, Y>() && (decltype((void)(*(X*)0 - *(Y*)0), 1){}, true)>\<close>:
  the whole condition is ill-formed when the subtraction is; otherwise the comma
  expression is \<open>True\<close> and the condition is that of \<^verbatim>\<open>Monoid\<close>.
\<close>

definition numeric_when :: "('t, 'v) program \<Rightarrow> 't \<Rightarrow> 't \<Rightarrow> bool option" where
  "numeric_when P X Y =
     (case builtin_minus P X Y of
        None \<Rightarrow> None
      | Some _ \<Rightarrow> Some (are_Monoid P X Y \<and> True))"

text \<open>\<^verbatim>\<open>static constexpr auto minus_impl(X x, Y y) { return x - y; }\<close>\<close>

definition numeric_minus_impl :: "('t, 'v) program \<Rightarrow> 't \<Rightarrow> 't \<Rightarrow> 'v \<Rightarrow> 'v \<Rightarrow> error + 'v" where
  "numeric_minus_impl P X Y x y =
     (case builtin_minus P X Y of
        None \<Rightarrow> Inl Ill_formed
      | Some f \<Rightarrow> f x y)"

text \<open>The specialisation derives from \<^verbatim>\<open>Group::minus_mcd<X, Y>\<close>.\<close>

definition numeric_instance :: "('t, 'v) program \<Rightarrow> ('t, 'v) group_instance" where
  "numeric_instance P =
     \<lparr> when_pred = numeric_when P,
       members = (\<lambda>X Y. Minus_mcd (numeric_minus_impl P X Y)) \<rparr>"

definition instances :: "('t, 'v) program \<Rightarrow> ('t, 'v) group_instance list" where
  "instances P = numeric_instance P # user_instances P"

section \<open>Selecting an instance\<close>

text \<open>
  Modelled from the spec: the selection of \<^verbatim>\<open>Group::instance<X, Y>\<close>, which the macro
  \<^verbatim>\<open>BOOST_HANA_BINARY_TYPECLASS\<close> of \<^verbatim>\<open>boost/hana/core/typeclass.hpp\<close> sets up and
  which is not part of the sources at hand. An instance applies when its condition is
  well-formed and true; a condition that is ill-formed counts as false. Of the declared
  instances exactly one must apply.
\<close>

definition applicable :: "('t, 'v) group_instance \<Rightarrow> 't \<Rightarrow> 't \<Rightarrow> bool" where
  "applicable i X Y = (when_pred i X Y = Some True)"

definition resolve :: "('t, 'v) group_instance list \<Rightarrow> 't \<Rightarrow> 't \<Rightarrow> error + ('t, 'v) group_instance" where
  "resolve insts X Y =
     (case filter (\<lambda>i. applicable i X Y) insts of
        [] \<Rightarrow> Inl No_instance
      | [i] \<Rightarrow> Inr i
      | _ # _ # _ \<Rightarrow> Inl Ambiguous_instance)"

section \<open>The methods\<close>

text \<open>
  The two generic lambdas of the header:
  \<^item> \<^verbatim>\<open>minus(x, y)\<close> is
    \<^verbatim>\<open>Group::instance<datatype_t<decltype(x)>, datatype_t<decltype(y)>>::minus_impl(x, y)\<close>;
  \<^item> \<^verbatim>\<open>negate(x)\<close> is
    \<^verbatim>\<open>Group::instance<datatype_t<decltype(x)>, datatype_t<decltype(x)>>::negate_impl(x)\<close>.

  The member that the author of the instance did not write comes from the minimal
  complete definition: \<^verbatim>\<open>Group::minus_mcd<G1, G2>::negate_impl(x)\<close> is
  \<^verbatim>\<open>minus(zero<G1>, x)\<close>, a call of the generic \<^verbatim>\<open>minus\<close>, which selects an instance
  again. Since \<^verbatim>\<open>negate\<close> selects \<^verbatim>\<open>Group::instance<G, G>\<close>, the \<open>G1\<close> of that body is
  the data type of \<open>x\<close>.

  Modelled from the spec: the body of \<^verbatim>\<open>Group::negate_mcd\<close>, which the header only
  declares: its \<^verbatim>\<open>minus_impl(x, y)\<close> is \<^verbatim>\<open>plus(x, negate(y))\<close>.

  The two lambdas call each other through the two minimal complete definitions, and
  nothing in the header bounds the chain, so they are one function on the two kinds of
  call, with \<open>None\<close> for a chain that never ends.
\<close>

datatype 'v call = Minus_call 'v 'v | Negate_call 'v

partial_function (option) group_dispatch :: "('t, 'v) program \<Rightarrow> 'v call \<Rightarrow> 'v outcome" where
  "group_dispatch P c =
     (case c of
        Minus_call x y \<Rightarrow>
          (case resolve (instances P) (datatype_t P x) (datatype_t P y) of
             Inl e \<Rightarrow> Some (Inl e)
           | Inr i \<Rightarrow>
               (case members i (datatype_t P x) (datatype_t P y) of
                  Minus_mcd f \<Rightarrow> Some (f x y) \<comment> \<open>the author's \<^verbatim>\<open>minus_impl(x, y)\<close>\<close>
                | Negate_mcd g \<Rightarrow> \<comment> \<open>\<^verbatim>\<open>plus(x, negate(y))\<close>\<close>
                    Option.bind (group_dispatch P (Negate_call y))
                      (\<lambda>r. case r of
                             Inl e \<Rightarrow> Some (Inl e)
                           | Inr n \<Rightarrow> Some (plus_impl P x n))))
      | Negate_call x \<Rightarrow>
          (case resolve (instances P) (datatype_t P x) (datatype_t P x) of
             Inl e \<Rightarrow> Some (Inl e)
           | Inr i \<Rightarrow>
               (case members i (datatype_t P x) (datatype_t P x) of
                  Negate_mcd g \<Rightarrow> Some (g x) \<comment> \<open>the author's \<^verbatim>\<open>negate_impl(x)\<close>\<close>
                | Minus_mcd f \<Rightarrow> \<comment> \<open>\<^verbatim>\<open>minus(zero<G1>, x)\<close>\<close>
                    (case zero_impl P (datatype_t P x) of
                       Inl e \<Rightarrow> Some (Inl e)
                     | Inr z \<Rightarrow> group_dispatch P (Minus_call z x)))))"

definition minus_hana :: "('t, 'v) program \<Rightarrow> 'v \<Rightarrow> 'v \<Rightarrow> 'v outcome" where
  "minus_hana P x y = group_dispatch P (Minus_call x y)"

definition negate :: "('t, 'v) program \<Rightarrow> 'v \<Rightarrow> 'v outcome" where
  "negate P x = group_dispatch P (Negate_call x)"

text \<open>
  \<^verbatim>\<open>plus(a, b)\<close> on the outcomes of its two arguments: the call is built when both
  arguments are.
\<close>

definition plus_hana :: "('t, 'v) program \<Rightarrow> 'v outcome \<Rightarrow> 'v outcome \<Rightarrow> 'v outcome" where
  "plus_hana P a b =
     Option.bind a (\<lambda>ra. Option.bind b (\<lambda>rb.
       case ra of
         Inl e \<Rightarrow> Some (Inl e)
       | Inr x \<Rightarrow> (case rb of Inl e \<Rightarrow> Some (Inl e) | Inr y \<Rightarrow> Some (plus_impl P x y))))"

definition returns :: "'v \<Rightarrow> 'v outcome" where
  "returns v = Some (Inr v)"

definition zero_hana :: "('t, 'v) program \<Rightarrow> 't \<Rightarrow> 'v outcome" where
  "zero_hana P G = Some (zero_impl P G)"

text \<open>\<^verbatim>\<open>Group::minus_mcd<G1, G2>::negate_impl\<close>: \<^verbatim>\<open>return minus(zero<G1>, x);\<close>\<close>

definition minus_mcd_negate_impl :: "('t, 'v) program \<Rightarrow> 't \<Rightarrow> 'v \<Rightarrow> 'v outcome" where
  "minus_mcd_negate_impl P G1 x =
     (case zero_impl P G1 of
        Inl e \<Rightarrow> Some (Inl e)
      | Inr z \<Rightarrow> minus_hana P z x)"

text \<open>
  Modelled from the spec: \<^verbatim>\<open>Group::negate_mcd<G1, G2>::minus_impl\<close>, declared and not
  defined in the header: \<open>subtract(x, y) = combine(x, invert(y))\<close>.
\<close>

definition negate_mcd_minus_impl :: "('t, 'v) program \<Rightarrow> 'v \<Rightarrow> 'v \<Rightarrow> 'v outcome" where
  "negate_mcd_minus_impl P x y = plus_hana P (returns x) (negate P y)"

text \<open>The two members of the instance \<open>i\<close> selected at the data types \<open>X\<close>, \<open>Y\<close>.\<close>

definition minus_impl ::
  "('t, 'v) program \<Rightarrow> ('t, 'v) group_instance \<Rightarrow> 't \<Rightarrow> 't \<Rightarrow> 'v \<Rightarrow> 'v \<Rightarrow> 'v outcome" where
  "minus_impl P i X Y x y =
     (case members i X Y of
        Minus_mcd f \<Rightarrow> Some (f x y)
      | Negate_mcd g \<Rightarrow> negate_mcd_minus_impl P x y)"

definition negate_impl ::
  "('t, 'v) program \<Rightarrow> ('t, 'v) group_instance \<Rightarrow> 't \<Rightarrow> 't \<Rightarrow> 'v \<Rightarrow> 'v outcome" where
  "negate_impl P i X Y x =
     (case members i X Y of
        Negate_mcd g \<Rightarrow> Some (g x)
      | Minus_mcd f \<Rightarrow> minus_mcd_negate_impl P X x)"

section \<open>The operators\<close>

text \<open>
  \<^verbatim>\<open>namespace operators\<close>: binary \<^verbatim>\<open>operator-(C1 c1, C2 c2) { return minus(c1, c2); }\<close>
  and unary \<^verbatim>\<open>operator-(C1 c1) { return negate(c1); }\<close>.
\<close>

definition operators_binary_minus :: "('t, 'v) program \<Rightarrow> 'v \<Rightarrow> 'v \<Rightarrow> 'v outcome" where
  "operators_binary_minus P c1 c2 = minus_hana P c1 c2"

definition operators_unary_minus :: "('t, 'v) program \<Rightarrow> 'v \<Rightarrow> 'v outcome" where
  "operators_unary_minus P c1 = negate P c1"

section \<open>A program to run the header in\<close>

text \<open>
  Four data types:
  \<^item> \<^verbatim>\<open>int\<close>, with 32 bits. Its \<^verbatim>\<open>+\<close> and \<^verbatim>\<open>-\<close> are those of the machine word, which
    are the results of C++ wherever the operation does not overflow; where it overflows
    C++ defines no result (and refuses the expression in a constant expression), and the
    word wraps around. \<open>int_minus_overflows\<close> and \<open>int_plus_overflows\<close> say where that is.
  \<^item> \<open>Stamp_t\<close>, a class of a user around an unsigned count of 32 bits, whose only
    operator is \<^verbatim>\<open>int operator-(Stamp, Stamp)\<close>: \<^verbatim>\<open>s - t\<close> type-checks for two stamps,
    and the class is no \<^verbatim>\<open>Monoid\<close>.
  \<^item> \<open>Big_t\<close> and \<open>Odd_t\<close>, two more classes of a user, each a \<^verbatim>\<open>Monoid\<close> under the
    addition of integers and neither with a binary \<^verbatim>\<open>operator-\<close>.
\<close>

datatype cpp_type = Int_t | Stamp_t | Big_t | Odd_t

datatype cpp_val = Int_v "32 word" | Stamp_v "32 word" | Big_v int | Odd_v int

fun cpp_datatype_t :: "cpp_val \<Rightarrow> cpp_type" where
  "cpp_datatype_t (Int_v _) = Int_t"
| "cpp_datatype_t (Stamp_v _) = Stamp_t"
| "cpp_datatype_t (Big_v _) = Big_t"
| "cpp_datatype_t (Odd_v _) = Odd_t"

fun cpp_are_Monoid :: "cpp_type \<Rightarrow> cpp_type \<Rightarrow> bool" where
  "cpp_are_Monoid Int_t Int_t = True"
| "cpp_are_Monoid Big_t Big_t = True"
| "cpp_are_Monoid Odd_t Odd_t = True"
| "cpp_are_Monoid _ _ = False"

fun cpp_zero_impl :: "cpp_type \<Rightarrow> error + cpp_val" where
  "cpp_zero_impl Int_t = Inr (Int_v 0)"
| "cpp_zero_impl Big_t = Inr (Big_v 0)"
| "cpp_zero_impl Odd_t = Inr (Odd_v 0)"
| "cpp_zero_impl Stamp_t = Inl No_instance"

fun cpp_plus_impl :: "cpp_val \<Rightarrow> cpp_val \<Rightarrow> error + cpp_val" where
  "cpp_plus_impl (Int_v a) (Int_v b) = Inr (Int_v (a + b))"
| "cpp_plus_impl (Big_v a) (Big_v b) = Inr (Big_v (a + b))"
| "cpp_plus_impl (Odd_v a) (Odd_v b) = Inr (Odd_v (a + b))"
| "cpp_plus_impl _ _ = Inl No_instance"

text \<open>
  \<^verbatim>\<open>x - y\<close> on two \<^verbatim>\<open>int\<close>s and on two stamps (the difference of the counts,
  converted to \<^verbatim>\<open>int\<close>); the expression has no meaning on operands of other data types.
\<close>

fun int_minus :: "cpp_val \<Rightarrow> cpp_val \<Rightarrow> error + cpp_val" where
  "int_minus (Int_v a) (Int_v b) = Inr (Int_v (a - b))"
| "int_minus _ _ = Inl Ill_formed"

fun stamp_minus :: "cpp_val \<Rightarrow> cpp_val \<Rightarrow> error + cpp_val" where
  "stamp_minus (Stamp_v a) (Stamp_v b) = Inr (Int_v (a - b))"
| "stamp_minus _ _ = Inl Ill_formed"

text \<open>
  Where \<^verbatim>\<open>a - b\<close> and \<^verbatim>\<open>a + b\<close> on two \<^verbatim>\<open>int\<close>s overflow: the signed value of the
  word is not the difference, or the sum, of the signed values.
\<close>

definition int_minus_overflows :: "32 word \<Rightarrow> 32 word \<Rightarrow> bool" where
  "int_minus_overflows a b = (sint (a - b) \<noteq> sint a - sint b)"

definition int_plus_overflows :: "32 word \<Rightarrow> 32 word \<Rightarrow> bool" where
  "int_plus_overflows a b = (sint (a + b) \<noteq> sint a + sint b)"

fun cpp_builtin_minus ::
  "cpp_type \<Rightarrow> cpp_type \<Rightarrow> (cpp_val \<Rightarrow> cpp_val \<Rightarrow> error + cpp_val) option" where
  "cpp_builtin_minus Int_t Int_t = Some int_minus"
| "cpp_builtin_minus Stamp_t Stamp_t = Some stamp_minus"
| "cpp_builtin_minus _ _ = None"

text \<open>
  The instance of \<open>Big_t\<close> derives from \<^verbatim>\<open>negate_mcd\<close> and supplies the negation of
  integers.
\<close>

fun big_negate :: "cpp_val \<Rightarrow> error + cpp_val" where
  "big_negate (Big_v a) = Inr (Big_v (- a))"
| "big_negate _ = Inl Ill_formed"

definition big_instance :: "(cpp_type, cpp_val) group_instance" where
  "big_instance =
     \<lparr> when_pred = (\<lambda>X Y. Some (X = Big_t \<and> Y = Big_t)),
       members = (\<lambda>X Y. Negate_mcd big_negate) \<rparr>"

text \<open>
  The instance of \<open>Odd_t\<close> derives from \<^verbatim>\<open>minus_mcd\<close>. Its \<^verbatim>\<open>minus_impl\<close> subtracts
  from zero as the integers do, and returns zero from anything else.
\<close>

fun odd_minus :: "cpp_val \<Rightarrow> cpp_val \<Rightarrow> error + cpp_val" where
  "odd_minus (Odd_v a) (Odd_v b) = Inr (Odd_v (if a = 0 then - b else 0))"
| "odd_minus _ _ = Inl Ill_formed"

definition odd_instance :: "(cpp_type, cpp_val) group_instance" where
  "odd_instance =
     \<lparr> when_pred = (\<lambda>X Y. Some (X = Odd_t \<and> Y = Odd_t)),
       members = (\<lambda>X Y. Minus_mcd odd_minus) \<rparr>"

text \<open>An instance declared for every pair of data types: \<^verbatim>\<open>when<true>\<close>.\<close>

definition catch_all_instance :: "(cpp_type, cpp_val) group_instance" where
  "catch_all_instance =
     \<lparr> when_pred = (\<lambda>X Y. Some True),
       members = (\<lambda>X Y. Negate_mcd (\<lambda>x. Inr x)) \<rparr>"

definition cpp_program :: "(cpp_type, cpp_val) group_instance list \<Rightarrow> (cpp_type, cpp_val) program" where
  "cpp_program us =
     \<lparr> datatype_t = cpp_datatype_t,
       are_Monoid = cpp_are_Monoid,
       zero_impl = cpp_zero_impl,
       plus_impl = cpp_plus_impl,
       builtin_minus = cpp_builtin_minus,
       user_instances = us \<rparr>"

definition example_program :: "(cpp_type, cpp_val) program" where
  "example_program = cpp_program [big_instance, odd_instance]"

definition overlapping_program :: "(cpp_type, cpp_val) program" where
  "overlapping_program = cpp_program [big_instance, catch_all_instance]"



section \<open>Unfolding the dispatch\<close>

lemma minus_hana_unfold:
  "minus_hana P x y =
     (case resolve (instances P) (datatype_t P x) (datatype_t P y) of
        Inl e \<Rightarrow> Some (Inl e)
      | Inr i \<Rightarrow> minus_impl P i (datatype_t P x) (datatype_t P y) x y)"
  unfolding minus_hana_def
  by (subst group_dispatch.simps)
     (simp add: minus_impl_def negate_mcd_minus_impl_def plus_hana_def returns_def negate_def
           split: sum.splits group_mcd.splits)

lemma negate_unfold:
  "negate P x =
     (case resolve (instances P) (datatype_t P x) (datatype_t P x) of
        Inl e \<Rightarrow> Some (Inl e)
      | Inr i \<Rightarrow> negate_impl P i (datatype_t P x) (datatype_t P x) x)"
  unfolding negate_def
  by (subst group_dispatch.simps)
     (simp add: negate_impl_def minus_mcd_negate_impl_def minus_hana_def
           split: sum.splits group_mcd.splits)

section \<open>Facts about the selection\<close>

lemma resolve_skip:
  "\<not> applicable i X Y \<Longrightarrow> resolve (pre @ i # post) X Y = resolve (pre @ post) X Y"
  by (simp add: resolve_def)

lemma resolve_none:
  "\<forall>i\<in>set insts. \<not> applicable i X Y \<Longrightarrow> resolve insts X Y = Inl No_instance"
  by (simp add: resolve_def filter_False)

lemma resolve_first:
  "applicable i X Y \<Longrightarrow> \<forall>j\<in>set insts. \<not> applicable j X Y \<Longrightarrow> resolve (i # insts) X Y = Inr i"
  by (simp add: resolve_def filter_False)

lemma resolve_many:
  "2 \<le> length (filter (\<lambda>i. applicable i X Y) insts) \<Longrightarrow> resolve insts X Y = Inl Ambiguous_instance"
  by (auto simp: resolve_def split: list.splits)

lemma resolve_Inr:
  "resolve insts X Y = Inr i \<Longrightarrow> filter (\<lambda>j. applicable j X Y) insts = [i]"
  by (auto simp: resolve_def split: list.splits)

lemma numeric_applicable:
  "applicable (numeric_instance P) X Y \<longleftrightarrow> are_Monoid P X Y \<and> builtin_minus P X Y \<noteq> None"
  by (auto simp: applicable_def numeric_instance_def numeric_when_def split: option.splits)

lemma numeric_selected:
  assumes "are_Monoid P X Y" and "builtin_minus P X Y = Some f"
    and "\<forall>i\<in>set (user_instances P). \<not> applicable i X Y"
  shows "resolve (instances P) X Y = Inr (numeric_instance P)"
  unfolding instances_def using assms
  by (intro resolve_first) (simp_all add: numeric_applicable)

lemma numeric_minus:
  assumes "are_Monoid P (datatype_t P x) (datatype_t P y)"
    and "builtin_minus P (datatype_t P x) (datatype_t P y) = Some f"
    and "\<forall>i\<in>set (user_instances P). \<not> applicable i (datatype_t P x) (datatype_t P y)"
  shows "minus_hana P x y = Some (f x y)"
  using assms(2)
  by (simp add: minus_hana_unfold numeric_selected [OF assms] minus_impl_def
        numeric_instance_def numeric_minus_impl_def)

section \<open>The dispatch returns\<close>

text \<open>
  \<^verbatim>\<open>negate\<close> calls \<^verbatim>\<open>minus\<close> through \<^verbatim>\<open>minus_mcd\<close>, and \<^verbatim>\<open>minus\<close> calls \<^verbatim>\<open>negate\<close>
  through \<^verbatim>\<open>negate_mcd\<close>. When \<^verbatim>\<open>zero<G>\<close> is an object of data type \<open>G\<close>, the call
  of \<^verbatim>\<open>minus\<close> inside \<^verbatim>\<open>negate_impl\<close> selects the instance it came from, whose
  \<^verbatim>\<open>minus_impl\<close> is the author's, and the chain ends: both methods have an outcome.
\<close>

lemma negate_returns:
  assumes zero_typed: "\<And>G z. zero_impl P G = Inr z \<Longrightarrow> datatype_t P z = G"
  shows "\<exists>r. negate P x = Some r"
proof (cases "resolve (instances P) (datatype_t P x) (datatype_t P x)")
  case (Inl e)
  then show ?thesis by (simp add: negate_unfold [of P x])
next
  case (Inr i)
  show ?thesis
  proof (cases "members i (datatype_t P x) (datatype_t P x)")
    case (Negate_mcd g)
    with Inr show ?thesis by (simp add: negate_unfold [of P x] negate_impl_def)
  next
    case (Minus_mcd f)
    show ?thesis
    proof (cases "zero_impl P (datatype_t P x)")
      case (Inl e)
      with Inr Minus_mcd show ?thesis
        by (simp add: negate_unfold [of P x] negate_impl_def minus_mcd_negate_impl_def)
    next
      case z: (Inr z)
      from zero_typed [OF z] Inr Minus_mcd
      have "minus_hana P z x = Some (f z x)"
        by (simp add: minus_hana_unfold [of P z x] minus_impl_def)
      with Inr Minus_mcd z show ?thesis
        by (simp add: negate_unfold [of P x] negate_impl_def minus_mcd_negate_impl_def)
    qed
  qed
qed

lemma minus_hana_returns:
  assumes zero_typed: "\<And>G z. zero_impl P G = Inr z \<Longrightarrow> datatype_t P z = G"
  shows "\<exists>r. minus_hana P x y = Some r"
proof -
  from negate_returns [OF zero_typed] obtain r where "negate P y = Some r" by blast
  then show ?thesis
    by (simp add: minus_hana_unfold [of P x y] minus_impl_def negate_mcd_minus_impl_def
          plus_hana_def returns_def split: sum.splits group_mcd.splits)
qed

section \<open>The example program\<close>

text \<open>Its \<^verbatim>\<open>zero<G>\<close> is an object of data type \<open>G\<close>, so its dispatch always returns.\<close>

lemma cpp_zero_typed:
  "zero_impl (cpp_program us) G = Inr z \<Longrightarrow> datatype_t (cpp_program us) z = G"
  by (cases G) (auto simp: cpp_program_def)

lemma cpp_program_sel:
  "datatype_t (cpp_program us) = cpp_datatype_t"
  "are_Monoid (cpp_program us) = cpp_are_Monoid"
  "zero_impl (cpp_program us) = cpp_zero_impl"
  "plus_impl (cpp_program us) = cpp_plus_impl"
  "builtin_minus (cpp_program us) = cpp_builtin_minus"
  "user_instances (cpp_program us) = us"
  by (simp_all add: cpp_program_def)

lemmas cpp_simps =
  example_program_def overlapping_program_def cpp_program_sel
  big_instance_def odd_instance_def catch_all_instance_def applicable_def

lemma int_minus_hana:
  assumes "\<forall>i\<in>set us. \<not> applicable i Int_t Int_t"
  shows "minus_hana (cpp_program us) (Int_v a) (Int_v b) = returns (Int_v (a - b))"
proof -
  have "minus_hana (cpp_program us) (Int_v a) (Int_v b) = Some (int_minus (Int_v a) (Int_v b))"
    using assms by (intro numeric_minus) (simp_all add: cpp_program_sel)
  then show ?thesis by (simp add: returns_def)
qed

lemma int_negate:
  assumes "\<forall>i\<in>set us. \<not> applicable i Int_t Int_t"
  shows "negate (cpp_program us) (Int_v a) = returns (Int_v (- a))"
proof -
  have sel: "resolve (instances (cpp_program us)) Int_t Int_t = Inr (numeric_instance (cpp_program us))"
    using assms by (intro numeric_selected [where f = int_minus]) (simp_all add: cpp_program_sel)
  have "negate (cpp_program us) (Int_v a) = minus_hana (cpp_program us) (Int_v 0) (Int_v a)"
    using sel
    by (simp add: negate_unfold [of _ "Int_v a"] negate_impl_def minus_mcd_negate_impl_def numeric_instance_def cpp_program_sel)
  then show ?thesis by (simp add: int_minus_hana [OF assms])
qed

lemmas run_simps =
  minus_hana_unfold negate_unfold instances_def resolve_def numeric_instance_def numeric_when_def
  minus_impl_def negate_impl_def minus_mcd_negate_impl_def negate_mcd_minus_impl_def
  numeric_minus_impl_def plus_hana_def returns_def zero_hana_def

lemma example_no_user_instance_at_int:
  "\<forall>i\<in>set [big_instance, odd_instance]. \<not> applicable i Int_t Int_t"
  by (simp add: cpp_simps)

text \<open>
  The instance of \<open>Odd_t\<close> satisfies the two laws that \<^verbatim>\<open>struct Group\<close> documents, at
  every \<open>x\<close>: the laws constrain \<^verbatim>\<open>minus_impl\<close> only where its first argument is zero.
\<close>

lemma odd_instance_lawful:
  "plus_hana example_program (returns (Odd_v x)) (negate example_program (Odd_v x))
     = zero_hana example_program Odd_t
   \<and> plus_hana example_program (negate example_program (Odd_v x)) (returns (Odd_v x))
     = zero_hana example_program Odd_t"
  by (simp add: run_simps cpp_simps)

text \<open>
  The subtraction \<^verbatim>\<open>0 - x\<close> inside \<^verbatim>\<open>negate\<close> overflows at the least \<^verbatim>\<open>int\<close> and
  nowhere else.
\<close>

lemma sint_min: "sint (x :: 32 word) = - (2 ^ 31) \<longleftrightarrow> x = - (2 ^ 31)"
proof
  assume "sint x = - (2 ^ 31)"
  then have "sint x = sint (- (2 ^ 31) :: 32 word)" by simp
  then show "x = - (2 ^ 31)" by (rule signed_word_eqI)
next
  assume "x = - (2 ^ 31)"
  then show "sint x = - (2 ^ 31)" by simp
qed

lemma negate_overflows_iff:
  "int_minus_overflows 0 x \<longleftrightarrow> x = - (2 ^ 31)"
proof -
  have range: "- (2 ^ 31) \<le> sint x" "sint x < 2 ^ 31"
    using sint_range_size [of x] by (simp_all add: word_size)
  have "sint (0 - x) = signed_take_bit 31 (- sint x)"
    by (simp add: sint_word_ariths word_size)
  moreover have "signed_take_bit 31 (- sint x) = - sint x \<longleftrightarrow> sint x \<noteq> - (2 ^ 31)"
    using range by (auto simp add: signed_take_bit_int_eq_self_iff)
  ultimately have "int_minus_overflows 0 x \<longleftrightarrow> sint x = - (2 ^ 31)"
    by (simp add: int_minus_overflows_def)
  then show ?thesis by (simp only: sint_min)
qed

section \<open>The claims\<close>




text \<open>
  Claim C2. Where the numeric instance is the one selected, \<^verbatim>\<open>minus(x, y)\<close> is the
  built-in \<^verbatim>\<open>x - y\<close> of the two data types. On the \<^verbatim>\<open>int\<close>s 5 and 3:
  \<^verbatim>\<open>minus(5, 3)\<close> is 2, \<^verbatim>\<open>zero<int>\<close> is 0, \<^verbatim>\<open>negate(5)\<close> is \<^verbatim>\<open>minus(0, 5)\<close>, which
  is -5, and \<^verbatim>\<open>plus(5, negate(5))\<close> is 0.
\<close>
theorem numeric_instance_subtracts:
  "(are_Monoid P (datatype_t P x) (datatype_t P y) \<longrightarrow>
    builtin_minus P (datatype_t P x) (datatype_t P y) = Some f \<longrightarrow>
    (\<forall>i\<in>set (user_instances P). \<not> applicable i (datatype_t P x) (datatype_t P y)) \<longrightarrow>
      minus_hana P x y = Some (f x y))
   \<and> minus_hana example_program (Int_v 5) (Int_v 3) = returns (Int_v 2)
   \<and> zero_hana example_program Int_t = returns (Int_v 0)
   \<and> negate example_program (Int_v 5) = minus_hana example_program (Int_v 0) (Int_v 5)
   \<and> negate example_program (Int_v 5) = returns (Int_v (- 5))
   \<and> plus_hana example_program (returns (Int_v 5)) (negate example_program (Int_v 5))
       = returns (Int_v 0)"
proof -
  note us = example_no_user_instance_at_int
  have "minus_hana example_program (Int_v 5) (Int_v 3) = returns (Int_v 2)"
    unfolding example_program_def by (simp add: int_minus_hana [OF us])
  moreover have "zero_hana example_program Int_t = returns (Int_v 0)"
    by (simp add: zero_hana_def returns_def cpp_simps)
  moreover have "negate example_program (Int_v 5) = returns (Int_v (- 5))"
    unfolding example_program_def by (simp add: int_negate [OF us])
  moreover have "minus_hana example_program (Int_v 0) (Int_v 5) = returns (Int_v (- 5))"
    unfolding example_program_def by (simp add: int_minus_hana [OF us])
  moreover have "plus_hana example_program (returns (Int_v 5)) (negate example_program (Int_v 5))
       = returns (Int_v 0)"
    unfolding example_program_def
    by (simp add: int_negate [OF us] plus_hana_def returns_def cpp_program_sel)
  ultimately show ?thesis
    by (simp add: numeric_minus)
qed

theorem numeric_instance_subtracts_witness:
  "minus_hana example_program (Int_v 5) (Int_v 3) = Some (int_minus (Int_v 5) (Int_v 3))"
proof -
  have "are_Monoid example_program (datatype_t example_program (Int_v 5))
          (datatype_t example_program (Int_v 3))"
    and "builtin_minus example_program (datatype_t example_program (Int_v 5))
          (datatype_t example_program (Int_v 3)) = Some int_minus"
    and "\<forall>i\<in>set (user_instances example_program).
          \<not> applicable i (datatype_t example_program (Int_v 5)) (datatype_t example_program (Int_v 3))"
    by (simp_all add: cpp_simps)
  with numeric_instance_subtracts [of example_program "Int_v 5" "Int_v 3" int_minus]
  show ?thesis by blast
qed

text \<open>
  Claim C3. For an instance that derives from \<^verbatim>\<open>minus_mcd\<close>, \<^verbatim>\<open>negate(x)\<close> is
  \<^verbatim>\<open>minus(zero<G>, x)\<close>, where \<open>G\<close> is the data type of \<open>x\<close> and \<^verbatim>\<open>zero<G>\<close> the
  identity of the \<^verbatim>\<open>Monoid\<close>.
\<close>
theorem minus_mcd_derives_negate:
  assumes "resolve (instances P) (datatype_t P x) (datatype_t P x) = Inr i"
    and "members i (datatype_t P x) (datatype_t P x) = Minus_mcd f"
    and "zero_impl P (datatype_t P x) = Inr z"
  shows "negate P x = minus_hana P z x"
  using assms by (simp add: negate_unfold [of P x] negate_impl_def minus_mcd_negate_impl_def)

theorem minus_mcd_derives_negate_witness:
  "negate example_program (Int_v 5) = minus_hana example_program (Int_v 0) (Int_v 5)
   \<and> negate example_program (Odd_v 3) = minus_hana example_program (Odd_v 0) (Odd_v 3)"
proof -
  have "negate example_program (Int_v 5) = minus_hana example_program (Int_v 0) (Int_v 5)"
    by (rule minus_mcd_derives_negate
          [where i = "numeric_instance example_program"
             and f = "numeric_minus_impl example_program Int_t Int_t"])
       (simp_all add: run_simps cpp_simps)
  moreover have "negate example_program (Odd_v 3) = minus_hana example_program (Odd_v 0) (Odd_v 3)"
    by (rule minus_mcd_derives_negate [where i = odd_instance and f = odd_minus])
       (simp_all add: run_simps cpp_simps)
  ultimately show ?thesis by blast
qed


text \<open>
  Claim C4. When the conditions of two or more declared instances are true at the data
  types of the operands, the selection fails as ambiguous, and so does \<^verbatim>\<open>minus\<close>; and
  whenever the selection returns an instance, that instance is the only one whose
  condition is true.
\<close>
theorem ambiguous_instances_fail:
  "(2 \<le> length (filter (\<lambda>i. applicable i (datatype_t P x) (datatype_t P y)) (instances P)) \<longrightarrow>
      resolve (instances P) (datatype_t P x) (datatype_t P y) = Inl Ambiguous_instance
      \<and> minus_hana P x y = Some (Inl Ambiguous_instance))
   \<and> (resolve insts X Y = Inr i \<longrightarrow> filter (\<lambda>j. applicable j X Y) insts = [i])"
  by (simp add: minus_hana_unfold [of P x y] resolve_many resolve_Inr)

theorem ambiguous_instances_fail_witness:
  "minus_hana overlapping_program (Int_v 5) (Int_v 3) = Some (Inl Ambiguous_instance)
   \<and> minus_hana overlapping_program (Big_v 5) (Big_v 3) = Some (Inl Ambiguous_instance)
   \<and> filter (\<lambda>j. applicable j Big_t Big_t) (instances example_program) = [big_instance]"
proof -
  have int: "2 \<le> length (filter (\<lambda>i. applicable i (datatype_t overlapping_program (Int_v 5))
      (datatype_t overlapping_program (Int_v 3))) (instances overlapping_program))"
    by (simp add: run_simps cpp_simps)
  have big: "2 \<le> length (filter (\<lambda>i. applicable i (datatype_t overlapping_program (Big_v 5))
      (datatype_t overlapping_program (Big_v 3))) (instances overlapping_program))"
    by (simp add: run_simps cpp_simps)
  have one: "resolve (instances example_program) Big_t Big_t = Inr big_instance"
    by (simp add: run_simps cpp_simps)
  from ambiguous_instances_fail [of overlapping_program "Int_v 5" "Int_v 3", THEN conjunct1] int
  have 1: "minus_hana overlapping_program (Int_v 5) (Int_v 3) = Some (Inl Ambiguous_instance)"
    by simp
  from ambiguous_instances_fail [of overlapping_program "Big_v 5" "Big_v 3", THEN conjunct1] big
  have 2: "minus_hana overlapping_program (Big_v 5) (Big_v 3) = Some (Inl Ambiguous_instance)"
    by simp
  from ambiguous_instances_fail [where insts = "instances example_program" and X = Big_t
      and Y = Big_t and i = big_instance, THEN conjunct2] one
  have 3: "filter (\<lambda>j. applicable j Big_t Big_t) (instances example_program) = [big_instance]"
    by simp
  from 1 2 3 show ?thesis by blast
qed

text \<open>
  Claim C5. An instance whose condition is ill-formed at a pair of data types does not
  apply there, and the selection is the one among the other instances: no error comes
  from the condition. The condition of the numeric instance is ill-formed at every pair
  of data types without the expression \<^verbatim>\<open>x - y\<close>, and there the selection is the
  one among the instances declared elsewhere.
\<close>
theorem ill_formed_condition_excludes:
  "(when_pred i X Y = None \<longrightarrow>
      \<not> applicable i X Y \<and> resolve (pre @ i # post) X Y = resolve (pre @ post) X Y)
   \<and> (builtin_minus P X Y = None \<longrightarrow>
        when_pred (numeric_instance P) X Y = None
        \<and> \<not> applicable (numeric_instance P) X Y
        \<and> resolve (instances P) X Y = resolve (user_instances P) X Y)"
proof (intro conjI impI)
  assume "when_pred i X Y = None"
  then show na: "\<not> applicable i X Y" by (simp add: applicable_def)
  then show "resolve (pre @ i # post) X Y = resolve (pre @ post) X Y" by (rule resolve_skip)
next
  assume "builtin_minus P X Y = None"
  then show "when_pred (numeric_instance P) X Y = None"
    by (simp add: numeric_instance_def numeric_when_def)
  then show na: "\<not> applicable (numeric_instance P) X Y" by (simp add: applicable_def)
  from resolve_skip [OF na, of "[]" "user_instances P"]
  show "resolve (instances P) X Y = resolve (user_instances P) X Y"
    by (simp add: instances_def)
qed

theorem ill_formed_condition_excludes_witness:
  "resolve (instances example_program) Big_t Big_t = Inr big_instance
   \<and> resolve (instances example_program) Int_t Big_t = Inl No_instance
   \<and> \<not> applicable (numeric_instance example_program) Int_t Big_t"
proof -
  have big: "builtin_minus example_program Big_t Big_t = None"
    and mixed: "builtin_minus example_program Int_t Big_t = None"
    by (simp_all add: cpp_simps)
  from ill_formed_condition_excludes [where P = example_program and X = Big_t and Y = Big_t,
      THEN conjunct2] big
  have "resolve (instances example_program) Big_t Big_t
          = resolve (user_instances example_program) Big_t Big_t" by blast
  then have 1: "resolve (instances example_program) Big_t Big_t = Inr big_instance"
    by (simp add: resolve_def cpp_simps)
  from ill_formed_condition_excludes [where P = example_program and X = Int_t and Y = Big_t,
      THEN conjunct2] mixed
  have m: "\<not> applicable (numeric_instance example_program) Int_t Big_t
      \<and> resolve (instances example_program) Int_t Big_t
          = resolve (user_instances example_program) Int_t Big_t" by blast
  then have 2: "resolve (instances example_program) Int_t Big_t = Inl No_instance"
    by (simp add: resolve_def cpp_simps)
  from 1 2 m show ?thesis by blast
qed

text \<open>
  Claim C6. When no declared instance applies at the data types of the operands,
  \<^verbatim>\<open>minus\<close> fails with \<open>No_instance\<close>; it returns no value. This is so for two data
  types that are not both \<^verbatim>\<open>Monoid\<close>s, unless an instance declared elsewhere applies
  to them.
\<close>
theorem no_instance_fails:
  "((\<forall>i\<in>set (instances P). \<not> applicable i (datatype_t P x) (datatype_t P y)) \<longrightarrow>
      minus_hana P x y = Some (Inl No_instance))
   \<and> (\<not> are_Monoid P (datatype_t P x) (datatype_t P y) \<longrightarrow>
       (\<forall>i\<in>set (user_instances P). \<not> applicable i (datatype_t P x) (datatype_t P y)) \<longrightarrow>
         minus_hana P x y = Some (Inl No_instance))"
proof (intro conjI impI)
  assume "\<forall>i\<in>set (instances P). \<not> applicable i (datatype_t P x) (datatype_t P y)"
  then show "minus_hana P x y = Some (Inl No_instance)"
    by (simp add: minus_hana_unfold [of P x y] resolve_none)
next
  assume "\<not> are_Monoid P (datatype_t P x) (datatype_t P y)"
    and "\<forall>i\<in>set (user_instances P). \<not> applicable i (datatype_t P x) (datatype_t P y)"
  then have "\<forall>i\<in>set (instances P). \<not> applicable i (datatype_t P x) (datatype_t P y)"
    by (simp add: instances_def numeric_applicable)
  then show "minus_hana P x y = Some (Inl No_instance)"
    by (simp add: minus_hana_unfold [of P x y] resolve_none)
qed

theorem no_instance_fails_witness:
  "minus_hana example_program (Stamp_v 5) (Stamp_v 3) = Some (Inl No_instance)
   \<and> minus_hana example_program (Int_v 5) (Big_v 3) = Some (Inl No_instance)"
proof -
  have "\<not> are_Monoid example_program (datatype_t example_program (Stamp_v 5))
          (datatype_t example_program (Stamp_v 3))"
    and "\<forall>i\<in>set (user_instances example_program).
          \<not> applicable i (datatype_t example_program (Stamp_v 5)) (datatype_t example_program (Stamp_v 3))"
    by (simp_all add: cpp_simps)
  with no_instance_fails [of example_program "Stamp_v 5" "Stamp_v 3", THEN conjunct2]
  have 1: "minus_hana example_program (Stamp_v 5) (Stamp_v 3) = Some (Inl No_instance)" by simp
  have "\<forall>i\<in>set (instances example_program).
          \<not> applicable i (datatype_t example_program (Int_v 5)) (datatype_t example_program (Big_v 3))"
    by (simp add: run_simps cpp_simps)
  with no_instance_fails [of example_program "Int_v 5" "Big_v 3", THEN conjunct1]
  have 2: "minus_hana example_program (Int_v 5) (Big_v 3) = Some (Inl No_instance)" by simp
  from 1 2 show ?thesis by blast
qed

text \<open>
  Claim C7. The binary \<^verbatim>\<open>operator-\<close> of \<^verbatim>\<open>namespace operators\<close> is \<^verbatim>\<open>minus\<close> and the
  unary one is \<^verbatim>\<open>negate\<close>, on all operands and with every outcome, failures included.
\<close>
theorem operators_forward:
  "operators_binary_minus P a b = minus_hana P a b \<and> operators_unary_minus P a = negate P a"
  by (simp add: operators_binary_minus_def operators_unary_minus_def)

text \<open>
  Claim C8, in the form that holds. The numeric instance on \<^verbatim>\<open>int\<close> satisfies the two
  laws at every \<open>x\<close> other than the least \<^verbatim>\<open>int\<close>: \<^verbatim>\<open>plus(x, negate(x))\<close> and
  \<^verbatim>\<open>plus(negate(x), x)\<close> are both \<^verbatim>\<open>zero<int>\<close>, and neither the subtraction inside
  \<^verbatim>\<open>negate\<close> nor the two additions overflow, whatever other instances are declared
  away from \<^verbatim>\<open>int\<close>. Nothing is said of the least \<^verbatim>\<open>int\<close>, where \<^verbatim>\<open>0 - x\<close> overflows,
  nor of the instances of a user, whose laws nothing in the header checks.
\<close>
theorem numeric_group_laws:
  assumes "\<forall>i\<in>set us. \<not> applicable i Int_t Int_t" and "x \<noteq> - (2 ^ 31)"
  shows "plus_hana (cpp_program us) (returns (Int_v x)) (negate (cpp_program us) (Int_v x))
           = zero_hana (cpp_program us) Int_t
         \<and> plus_hana (cpp_program us) (negate (cpp_program us) (Int_v x)) (returns (Int_v x))
           = zero_hana (cpp_program us) Int_t
         \<and> \<not> int_minus_overflows 0 x
         \<and> \<not> int_plus_overflows x (0 - x)
         \<and> \<not> int_plus_overflows (0 - x) x"
proof -
  from assms(2) have no: "\<not> int_minus_overflows 0 x"
    by (simp only: negate_overflows_iff not_False_eq_True)
  then have "\<not> int_plus_overflows x (0 - x) \<and> \<not> int_plus_overflows (0 - x) x"
    by (simp add: int_minus_overflows_def int_plus_overflows_def)
  with no show ?thesis
    by (simp add: int_negate [OF assms(1)] plus_hana_def returns_def zero_hana_def cpp_program_sel)
qed

theorem numeric_group_laws_witness:
  "plus_hana example_program (returns (Int_v 5)) (negate example_program (Int_v 5))
     = zero_hana example_program Int_t
   \<and> plus_hana example_program (negate example_program (Int_v 5)) (returns (Int_v 5))
     = zero_hana example_program Int_t
   \<and> zero_hana example_program Int_t = returns (Int_v 0)"
proof -
  have "(5 :: 32 word) \<noteq> - (2 ^ 31)" by simp
  from numeric_group_laws [OF example_no_user_instance_at_int this]
  show ?thesis
    by (simp add: example_program_def zero_hana_def returns_def cpp_program_sel)
qed

text \<open>
  In \<open>overlapping_program\<close> the instance selected at \<open>(Odd_t, Odd_t)\<close> is the one
  declared for every pair of data types, whose \<^verbatim>\<open>negate_impl\<close> returns its argument:
  the program is built, and \<^verbatim>\<open>plus(1, negate(1))\<close> is 2 where \<^verbatim>\<open>zero<Odd>\<close> is 0.
\<close>

theorem group_laws_counterexample:
  "plus_hana overlapping_program (returns (Odd_v 1)) (negate overlapping_program (Odd_v 1))
     = returns (Odd_v 2)
   \<and> plus_hana overlapping_program (negate overlapping_program (Odd_v 1)) (returns (Odd_v 1))
     = returns (Odd_v 2)
   \<and> zero_hana overlapping_program Odd_t = returns (Odd_v 0)
   \<and> plus_hana overlapping_program (returns (Odd_v 1)) (negate overlapping_program (Odd_v 1))
     \<noteq> zero_hana overlapping_program Odd_t
   \<and> plus_hana overlapping_program (negate overlapping_program (Odd_v 1)) (returns (Odd_v 1))
     \<noteq> zero_hana overlapping_program Odd_t"
  by (simp add: run_simps cpp_simps)

text \<open>
  Claim C9. For an instance that derives from \<^verbatim>\<open>negate_mcd\<close>, \<^verbatim>\<open>minus(x, y)\<close> is
  \<^verbatim>\<open>plus(x, negate(y))\<close>.
\<close>
theorem negate_mcd_derives_minus:
  assumes "resolve (instances P) (datatype_t P x) (datatype_t P y) = Inr i"
    and "members i (datatype_t P x) (datatype_t P y) = Negate_mcd g"
  shows "minus_hana P x y = plus_hana P (returns x) (negate P y)"
  using assms by (simp add: minus_hana_unfold [of P x y] minus_impl_def negate_mcd_minus_impl_def)

theorem negate_mcd_derives_minus_witness:
  "minus_hana example_program (Big_v 7) (Big_v 2)
     = plus_hana example_program (returns (Big_v 7)) (negate example_program (Big_v 2))
   \<and> plus_hana example_program (returns (Big_v 7)) (negate example_program (Big_v 2))
     = returns (Big_v 5)"
proof -
  have "minus_hana example_program (Big_v 7) (Big_v 2)
     = plus_hana example_program (returns (Big_v 7)) (negate example_program (Big_v 2))"
    by (rule negate_mcd_derives_minus [where i = big_instance and g = big_negate])
       (simp_all add: run_simps cpp_simps)
  moreover have "plus_hana example_program (returns (Big_v 7)) (negate example_program (Big_v 2))
     = returns (Big_v 5)"
    by (simp add: run_simps cpp_simps)
  ultimately show ?thesis by blast
qed

text \<open>
  Claim C10. For \<open>x\<close> of data type \<open>G\<close>, \<^verbatim>\<open>negate(x)\<close> goes through the selection at
  the pair \<open>(G, G)\<close>, the one \<^verbatim>\<open>minus\<close> goes through for two operands of data type
  \<open>G\<close>: when that selection fails both fail with its error, and when it returns an
  instance they are the \<^verbatim>\<open>negate_impl\<close> and the \<^verbatim>\<open>minus_impl\<close> of that instance.
\<close>
theorem negate_dispatch_homogeneous:
  assumes "datatype_t P x = G" and "datatype_t P y = G"
  shows "negate P x =
           (case resolve (instances P) G G of
              Inl e \<Rightarrow> Some (Inl e)
            | Inr i \<Rightarrow> negate_impl P i G G x)
         \<and> minus_hana P x y =
           (case resolve (instances P) G G of
              Inl e \<Rightarrow> Some (Inl e)
            | Inr i \<Rightarrow> minus_impl P i G G x y)
         \<and> (resolve (instances P) G G = Inl e \<longrightarrow>
              negate P x = Some (Inl e) \<and> minus_hana P x y = Some (Inl e))"
  using assms
  by (cases "resolve (instances P) G G")
     (auto simp add: negate_unfold [of P x] minus_hana_unfold [of P x y])

theorem negate_dispatch_homogeneous_witness:
  "negate example_program (Int_v 5)
     = negate_impl example_program (numeric_instance example_program) Int_t Int_t (Int_v 5)
   \<and> minus_hana example_program (Int_v 5) (Int_v 3)
     = minus_impl example_program (numeric_instance example_program) Int_t Int_t (Int_v 5) (Int_v 3)
   \<and> negate example_program (Stamp_v 5) = Some (Inl No_instance)
   \<and> minus_hana example_program (Stamp_v 5) (Stamp_v 3) = Some (Inl No_instance)"
proof -
  have int: "resolve (instances example_program) Int_t Int_t = Inr (numeric_instance example_program)"
    by (simp add: run_simps cpp_simps)
  have stamp: "resolve (instances example_program) Stamp_t Stamp_t = Inl No_instance"
    by (simp add: run_simps cpp_simps)
  from negate_dispatch_homogeneous [of example_program "Int_v 5" Int_t "Int_v 3"] int
  have 1: "negate example_program (Int_v 5)
     = negate_impl example_program (numeric_instance example_program) Int_t Int_t (Int_v 5)
   \<and> minus_hana example_program (Int_v 5) (Int_v 3)
     = minus_impl example_program (numeric_instance example_program) Int_t Int_t (Int_v 5) (Int_v 3)"
    by (simp add: cpp_simps)
  from negate_dispatch_homogeneous [of example_program "Stamp_v 5" Stamp_t "Stamp_v 3" No_instance] stamp
  have 2: "negate example_program (Stamp_v 5) = Some (Inl No_instance)
   \<and> minus_hana example_program (Stamp_v 5) (Stamp_v 3) = Some (Inl No_instance)"
    by (simp add: cpp_simps)
  from 1 2 show ?thesis by blast
qed

end
